theory Spec2Isabelle
  imports Complex_Main "HOL-Library.AList"
begin

section \<open>Numbers, errors and dictionaries\<close>

text \<open>
  The program is Python over floats. A float is modelled as a real number: \<open>+\<close>, \<open>-\<close>,
  \<open>*\<close> are exact, there is no rounding, no overflow and no NaN. Every operation that
  raises in Python is a function into \<open>error + real\<close>: division raises on a zero
  divisor, \<open>math.pow\<close> and \<open>math.sqrt\<close> raise outside their domain, a missing
  dictionary key raises, arithmetic on \<open>None\<close> raises.
\<close>

datatype error = ZeroDivisionError | ValueError | KeyError | TypeError | AttributeError

type_synonym 'v dict = "(string \<times> 'v) list"

text \<open>Sequencing: the first raise ends the computation.\<close>

definition bindE :: "error + 'a \<Rightarrow> ('a \<Rightarrow> error + 'b) \<Rightarrow> error + 'b" where
  "bindE m f = (case m of Inl e \<Rightarrow> Inl e | Inr v \<Rightarrow> f v)"

definition py_div :: "real \<Rightarrow> real \<Rightarrow> error + real" where
  "py_div a b = (if b = 0 then Inl ZeroDivisionError else Inr (a / b))"

text \<open>
  \<open>math.pow x y\<close>: a zero base with a negative exponent and a negative base with a
  non-integral exponent are domain errors; \<open>pow(x, 0)\<close> is 1 for every \<open>x\<close>.
\<close>

definition py_pow :: "real \<Rightarrow> real \<Rightarrow> error + real" where
  "py_pow x y =
     (if x = 0 \<and> y < 0 then Inl ValueError
      else if x < 0 \<and> of_int \<lfloor>y\<rfloor> \<noteq> y then Inl ValueError
      else Inr (if y = 0 then 1
                else if x = 0 then 0
                else if 0 < x then x powr y
                else x powi \<lfloor>y\<rfloor>))"

definition py_sqrt :: "real \<Rightarrow> error + real" where
  "py_sqrt x = (if x < 0 then Inl ValueError else Inr (sqrt x))"

text \<open>A value that is \<open>None\<close> where a number is needed: \<open>TypeError\<close>.\<close>

definition need :: "'a option \<Rightarrow> error + 'a" where
  "need v = (case v of None \<Rightarrow> Inl TypeError | Some x \<Rightarrow> Inr x)"

text \<open>An attribute that has not been assigned yet: \<open>AttributeError\<close>.\<close>

definition attr :: "'a option \<Rightarrow> error + 'a" where
  "attr v = (case v of None \<Rightarrow> Inl AttributeError | Some x \<Rightarrow> Inr x)"

text \<open>
  A dictionary is an association list in insertion order. \<open>d[k]\<close> raises
  \<open>KeyError\<close> on a missing key; \<open>d[k] = v\<close> replaces in place or appends.
\<close>

definition dict_get :: "'v dict \<Rightarrow> string \<Rightarrow> error + 'v" where
  "dict_get d k = (case map_of d k of None \<Rightarrow> Inl KeyError | Some v \<Rightarrow> Inr v)"

definition dict_set :: "'v dict \<Rightarrow> string \<Rightarrow> 'v \<Rightarrow> 'v dict" where
  "dict_set d k v = AList.update k v d"

definition dict_has :: "'v dict \<Rightarrow> string \<Rightarrow> bool" where
  "dict_has d k = (map_of d k \<noteq> None)"

text \<open>The value of an attribute that holds a float on a particle and a dictionary on a complex.\<close>

datatype pyval = PyFloat real | PyDict "real dict"

definition as_dict :: "pyval \<Rightarrow> error + real dict" where
  "as_dict v = (case v of PyFloat _ \<Rightarrow> Inl AttributeError | PyDict d \<Rightarrow> Inr d)"

section \<open>model.py: the fuel\<close>

datatype pyclass =
  Fuel_cls | RothermelFuel_cls | AlbiniFuel_cls
  | RothermelFuelComplex_cls | AlbiniFuelComplex_cls

text \<open>
  The attributes of \<open>class Fuel\<close>. \<open>ovendryLoading\<close>, \<open>bulkDensity\<close>, \<open>extMoisture\<close>,
  \<open>fuelMoisture\<close> and \<open>sigma\<close> start as \<open>None\<close>; \<open>packingRatio\<close>, \<open>optimalPacking\<close>,
  \<open>maxPotentialVelocity\<close>, \<open>exponentA\<close>, \<open>heatingEfficiency\<close>, \<open>heatOfIgnition\<close> and
  \<open>netFuelLoading\<close> do not exist until a method assigns them (\<open>None\<close> here). The type
  \<open>'v\<close> is \<open>real\<close> for a fuel particle and \<open>pyval\<close> for a fuel complex, whose
  per-category attributes are dictionaries.
\<close>

record 'v Fuel =
  pyclass :: pyclass
  ovendryLoading :: "real option"
  bulkDensity :: "real option"
  packingRatio :: "real option"
  extMoisture :: "'v option"
  fuelMoisture :: "'v option"
  sigma :: "real option"
  optimalPacking :: "real option"
  maxPotentialVelocity :: "real option"
  exponentA :: "real option"
  heatingEfficiency :: "real option"
  particleDensity :: real
  totMineralContent :: real
  effMineralContent :: 'v
  heatContent :: 'v
  heatOfIgnition :: "real option"
  netFuelLoading :: "'v option"

definition RothermelNetFuelLoading :: "real Fuel \<Rightarrow> error + real Fuel" where
  "RothermelNetFuelLoading self =
     bindE (need (ovendryLoading self)) (\<lambda>w.
     bindE (py_div w (1 + totMineralContent self)) (\<lambda>n.
     Inr (self\<lparr>netFuelLoading := Some n\<rparr>)))"

definition RothermelExponentA :: "('v, 'z) Fuel_scheme \<Rightarrow> error + ('v, 'z) Fuel_scheme" where
  "RothermelExponentA self =
     bindE (need (sigma self)) (\<lambda>s.
     bindE (py_pow s 0.1) (\<lambda>p.
     bindE (py_div 1 (4.77 * p - 7.27)) (\<lambda>a.
     Inr (self\<lparr>exponentA := Some a\<rparr>))))"

text \<open>albini.py: the two formulas of Albini's appendix III.\<close>

definition AlbiniNetFuelLoading :: "real Fuel \<Rightarrow> error + real Fuel" where
  "AlbiniNetFuelLoading self =
     bindE (need (ovendryLoading self)) (\<lambda>w.
     Inr (self\<lparr>netFuelLoading := Some (w * (1 - totMineralContent self))\<rparr>))"

definition AlbiniExponentA :: "('v, 'z) Fuel_scheme \<Rightarrow> error + ('v, 'z) Fuel_scheme" where
  "AlbiniExponentA self =
     bindE (need (sigma self)) (\<lambda>s.
     bindE (py_pow s (-0.7913)) (\<lambda>p.
     Inr (self\<lparr>exponentA := Some (133 * p)\<rparr>)))"

text \<open>
  The class attribute \<open>calcExponentA\<close>: \<open>None\<close> on \<open>Fuel\<close> (calling it is a
  \<open>TypeError\<close>), Rothermel's on \<open>RothermelFuel\<close> and \<open>RothermelFuelComplex\<close>,
  Albini's on \<open>AlbiniFuel\<close> and \<open>AlbiniFuelComplex\<close>.
\<close>

definition calcExponentA :: "('v, 'z) Fuel_scheme \<Rightarrow> error + ('v, 'z) Fuel_scheme" where
  "calcExponentA self =
     (case pyclass self of
        Fuel_cls \<Rightarrow> Inl TypeError
      | RothermelFuel_cls \<Rightarrow> RothermelExponentA self
      | AlbiniFuel_cls \<Rightarrow> AlbiniExponentA self
      | RothermelFuelComplex_cls \<Rightarrow> RothermelExponentA self
      | AlbiniFuelComplex_cls \<Rightarrow> AlbiniExponentA self)"

text \<open>
  The class attribute \<open>calcNetFuelLoading\<close> on a particle; both complex classes
  override it with \<open>pass\<close>.
\<close>

definition calcNetFuelLoading :: "real Fuel \<Rightarrow> error + real Fuel" where
  "calcNetFuelLoading self =
     (case pyclass self of
        Fuel_cls \<Rightarrow> Inl TypeError
      | RothermelFuel_cls \<Rightarrow> RothermelNetFuelLoading self
      | AlbiniFuel_cls \<Rightarrow> AlbiniNetFuelLoading self
      | RothermelFuelComplex_cls \<Rightarrow> Inr self
      | AlbiniFuelComplex_cls \<Rightarrow> Inr self)"

text \<open>
  \<open>Fuel.setSigma\<close>. The method assigns as it goes, so a raise leaves the object
  half updated: \<open>Inl (e, s)\<close> is the error \<open>e\<close> with the object left as \<open>s\<close>.
\<close>

definition setSigma ::
  "real \<Rightarrow> ('v, 'z) Fuel_scheme \<Rightarrow> (error \<times> ('v, 'z) Fuel_scheme) + ('v, 'z) Fuel_scheme" where
  "setSigma sg self =
     (let s1 = self\<lparr>sigma := Some sg\<rparr> in
      case py_pow sg (-0.8189) of Inl e \<Rightarrow> Inl (e, s1) | Inr p \<Rightarrow>
      let s2 = s1\<lparr>optimalPacking := Some (3.348 * p)\<rparr> in
      case py_pow sg 1.5 of Inl e \<Rightarrow> Inl (e, s2) | Inr sigma15 \<Rightarrow>
      case py_div sigma15 (495 + 0.0594 * sigma15) of Inl e \<Rightarrow> Inl (e, s2) | Inr v \<Rightarrow>
      let s3 = s2\<lparr>maxPotentialVelocity := Some v\<rparr> in
      case calcExponentA s3 of Inl e \<Rightarrow> Inl (e, s3) | Inr s4 \<Rightarrow>
      case py_div (-138) sg of Inl e \<Rightarrow> Inl (e, s4) | Inr q \<Rightarrow>
      Inr (s4\<lparr>heatingEfficiency := Some (exp q)\<rparr>))"

text \<open>The same call where only the outcome matters.\<close>

definition setSigmaE :: "real \<Rightarrow> ('v, 'z) Fuel_scheme \<Rightarrow> error + ('v, 'z) Fuel_scheme" where
  "setSigmaE sg self = (case setSigma sg self of Inl (e, _) \<Rightarrow> Inl e | Inr s \<Rightarrow> Inr s)"

definition setDensity :: "real \<Rightarrow> real \<Rightarrow> ('v, 'z) Fuel_scheme \<Rightarrow> error + ('v, 'z) Fuel_scheme" where
  "setDensity bulk particle self =
     bindE (py_div bulk particle) (\<lambda>r.
     Inr (self\<lparr>bulkDensity := Some bulk, particleDensity := particle, packingRatio := Some r\<rparr>))"

text \<open>\<open>Fuel.setFuelMoisture(fuel, extinction=None)\<close> on a particle.\<close>

definition setFuelMoisture :: "real \<Rightarrow> real option \<Rightarrow> real Fuel \<Rightarrow> real Fuel" where
  "setFuelMoisture fuel extinction self =
     self\<lparr>extMoisture := extinction, fuelMoisture := Some fuel,
          heatOfIgnition := Some (250 + 1116 * fuel)\<rparr>"

definition setMineralContent :: "real \<Rightarrow> real \<Rightarrow> real Fuel \<Rightarrow> real Fuel" where
  "setMineralContent tot eff self =
     self\<lparr>totMineralContent := tot, effMineralContent := eff\<rparr>"

definition setHeatContent :: "real \<Rightarrow> real Fuel \<Rightarrow> real Fuel" where
  "setHeatContent heat self = self\<lparr>heatContent := heat\<rparr>"

definition setLoading :: "real \<Rightarrow> ('v, 'z) Fuel_scheme \<Rightarrow> ('v, 'z) Fuel_scheme" where
  "setLoading loading self = self\<lparr>ovendryLoading := Some loading\<rparr>"

text \<open>
  \<open>Fuel.__init__(sigma=None, loading=None)\<close> for an object of class \<open>c\<close>. The
  defaults of lines 102 to 104 are written into the initial record: \<open>setSigma\<close>
  neither reads nor writes them, so the order does not show. A raise in the
  constructor leaves no object.
\<close>

definition Fuel_blank :: "pyclass \<Rightarrow> real option \<Rightarrow> real Fuel" where
  "Fuel_blank c loading =
     \<lparr>pyclass = c, ovendryLoading = loading, bulkDensity = None, packingRatio = None,
      extMoisture = None, fuelMoisture = None, sigma = None, optimalPacking = None,
      maxPotentialVelocity = None, exponentA = None, heatingEfficiency = None,
      particleDensity = 32, totMineralContent = 0.0555, effMineralContent = 0.01,
      heatContent = 8000, heatOfIgnition = None, netFuelLoading = None\<rparr>"

definition Fuel_init :: "pyclass \<Rightarrow> real option \<Rightarrow> real option \<Rightarrow> error + real Fuel" where
  "Fuel_init c sg loading =
     (case sg of
        None \<Rightarrow> Inr (Fuel_blank c loading)
      | Some s \<Rightarrow> setSigmaE s (Fuel_blank c loading))"

section \<open>rothweights.py: the fuel complex\<close>

abbreviation DEAD :: string where "DEAD \<equiv> ''dead''"
abbreviation LIVE :: string where "LIVE \<equiv> ''live''"
abbreviation ONEHR :: string where "ONEHR \<equiv> ''1 hr''"
abbreviation TENHR :: string where "TENHR \<equiv> ''10 hr''"
abbreviation HUNDREDHR :: string where "HUNDREDHR \<equiv> ''100 hr''"

text \<open>
  \<open>RothermelFuelComplex\<close> is a subclass of \<open>RothermelFuel\<close>: it has the attributes of
  a fuel and its own. \<open>wPrime\<close> and \<open>mPrime\<close> are the two attributes that
  \<open>AlbiniFuelComplex\<close> adds. Particles are held by value: each slot of
  \<open>fuelParameters\<close> has its own particle, as in every factory of nffl.py.
\<close>

record RothermelFuelComplex = "pyval Fuel" +
  fuelParameters :: "real Fuel dict dict"
  depth :: real
  classAreas :: "real dict dict"
  categoryAreas :: "real dict"
  totalArea :: real
  classWeighting :: "real dict dict"
  categoryWeighting :: "real dict"
  wPrime :: "real option"
  mPrime :: "real option"

text \<open>
  \<open>RothermelFuelComplex.__init__\<close>, for an object of class \<open>c\<close>:
  \<open>Fuel.__init__(self)\<close> with no sigma and no loading, then the attributes of the
  complex; \<open>extMoisture\<close> becomes an empty dictionary.
\<close>

definition RothermelFuelComplex_init :: "pyclass \<Rightarrow> RothermelFuelComplex" where
  "RothermelFuelComplex_init c =
     \<lparr>pyclass = c, ovendryLoading = None, bulkDensity = None, packingRatio = None,
      extMoisture = Some (PyDict []), fuelMoisture = None, sigma = None,
      optimalPacking = None, maxPotentialVelocity = None, exponentA = None,
      heatingEfficiency = None, particleDensity = 32, totMineralContent = 0.0555,
      effMineralContent = PyFloat 0.01, heatContent = PyFloat 8000,
      heatOfIgnition = None, netFuelLoading = None,
      fuelParameters = [], depth = 0, classAreas = [], categoryAreas = [],
      totalArea = 0, classWeighting = [], categoryWeighting = [],
      wPrime = None, mPrime = None\<rparr>"

definition setFuelParams ::
  "string \<Rightarrow> string \<Rightarrow> real Fuel \<Rightarrow> RothermelFuelComplex \<Rightarrow> RothermelFuelComplex" where
  "setFuelParams category fuelClass fuel self =
     (let classes = (case map_of (fuelParameters self) category of
                       None \<Rightarrow> [] | Some d \<Rightarrow> d)
      in self\<lparr>fuelParameters :=
                 dict_set (fuelParameters self) category (dict_set classes fuelClass fuel)\<rparr>)"

text \<open>\<open>self.extMoisture[category] = moisture\<close>: item assignment needs a dictionary.\<close>

definition setExtMoisture ::
  "string \<Rightarrow> real \<Rightarrow> RothermelFuelComplex \<Rightarrow> error + RothermelFuelComplex" where
  "setExtMoisture category moisture self =
     (case extMoisture self of
        Some (PyDict d) \<Rightarrow> Inr (self\<lparr>extMoisture := Some (PyDict (dict_set d category moisture))\<rparr>)
      | _ \<Rightarrow> Inl TypeError)"

definition setDepth :: "real \<Rightarrow> RothermelFuelComplex \<Rightarrow> RothermelFuelComplex" where
  "setDepth d self = self\<lparr>depth := d\<rparr>"

text \<open>\<open>self.fuelParameters[category][sizeClass]\<close>\<close>

definition particle_at :: "real Fuel dict dict \<Rightarrow> string \<Rightarrow> string \<Rightarrow> error + real Fuel" where
  "particle_at fp category sizeClass =
     bindE (dict_get fp category) (\<lambda>classes. dict_get classes sizeClass)"

text \<open>
  \<open>RothermelFuelComplex.setFuelMoisture(category, sizeClass, moisture)\<close>: the
  particle's own \<open>setFuelMoisture\<close> with the default \<open>extinction=None\<close>.
\<close>

definition complex_setFuelMoisture ::
  "string \<Rightarrow> string \<Rightarrow> real \<Rightarrow> RothermelFuelComplex \<Rightarrow> error + RothermelFuelComplex" where
  "complex_setFuelMoisture category sizeClass moisture self =
     bindE (dict_get (fuelParameters self) category) (\<lambda>classes.
     bindE (dict_get classes sizeClass) (\<lambda>fuel.
     Inr (self\<lparr>fuelParameters :=
                dict_set (fuelParameters self) category
                  (dict_set classes sizeClass (setFuelMoisture moisture None fuel))\<rparr>)))"

text \<open>\<open>RothermelFuelComplex.calcLivingExtMoisture\<close>, Rothermel's equation 88.\<close>

definition Rothermel_calcLivingExtMoisture ::
  "RothermelFuelComplex \<Rightarrow> error + RothermelFuelComplex" where
  "Rothermel_calcLivingExtMoisture self =
     bindE (particle_at (fuelParameters self) DEAD ONEHR) (\<lambda>dead1.
     bindE (need (ovendryLoading dead1)) (\<lambda>deadLoad.
     bindE (particle_at (fuelParameters self) LIVE ONEHR) (\<lambda>live1.
     bindE (need (ovendryLoading live1)) (\<lambda>liveLoad.
     bindE (py_div liveLoad (deadLoad + liveLoad)) (\<lambda>massRatio.
     bindE (py_div (1 - massRatio) massRatio) (\<lambda>q.
     bindE (need (fuelMoisture dead1)) (\<lambda>deadMoisture.
     setExtMoisture LIVE (2.9 * q * (1 - (10 / 3) * deadMoisture) - 0.226) self)))))))"

definition calcMeanSurfaceAreaOneClass :: "real Fuel \<Rightarrow> error + real" where
  "calcMeanSurfaceAreaOneClass fuel =
     bindE (need (sigma fuel)) (\<lambda>sg.
     bindE (need (ovendryLoading fuel)) (\<lambda>w.
     py_div (sg * w) (particleDensity fuel)))"

text \<open>The loop of \<open>calcMeanSurfaceAreaOneCategory\<close> over the items of one category.\<close>

fun classAreaLoop ::
  "(string \<times> real Fuel) list \<Rightarrow> real \<Rightarrow> real dict \<Rightarrow> error + (real \<times> real dict)" where
  "classAreaLoop [] tot curClass = Inr (tot, curClass)"
| "classAreaLoop ((k, fuel) # rest) tot curClass =
     bindE (calcMeanSurfaceAreaOneClass fuel) (\<lambda>curArea.
     classAreaLoop rest (tot + curArea) (dict_set curClass k curArea))"

definition calcMeanSurfaceAreaOneCategory ::
  "string \<Rightarrow> RothermelFuelComplex \<Rightarrow> error + RothermelFuelComplex" where
  "calcMeanSurfaceAreaOneCategory category self =
     bindE (dict_get (fuelParameters self) category) (\<lambda>classes.
     bindE (classAreaLoop classes 0 []) (\<lambda>(tot, curClass).
     Inr (self\<lparr>classAreas := dict_set (classAreas self) category curClass,
               categoryAreas := dict_set (categoryAreas self) category tot\<rparr>)))"

text \<open>The loop of \<open>calcMeanSurfaceArea\<close> over the categories.\<close>

fun categoryAreaLoop :: "string list \<Rightarrow> RothermelFuelComplex \<Rightarrow> error + RothermelFuelComplex" where
  "categoryAreaLoop [] self = Inr self"
| "categoryAreaLoop (cat # rest) self =
     bindE (calcMeanSurfaceAreaOneCategory cat self) (\<lambda>s1.
     bindE (dict_get (categoryAreas s1) cat) (\<lambda>a.
     categoryAreaLoop rest (s1\<lparr>totalArea := totalArea s1 + a\<rparr>)))"

definition calcMeanSurfaceArea :: "RothermelFuelComplex \<Rightarrow> error + RothermelFuelComplex" where
  "calcMeanSurfaceArea self =
     categoryAreaLoop (map fst (fuelParameters self))
       (self\<lparr>totalArea := 0, categoryAreas := [], classAreas := []\<rparr>)"

text \<open>The inner loop of \<open>calcWeightingParameters\<close>: equation 56 for each size class.\<close>

fun classWeightLoop ::
  "(string \<times> real) list \<Rightarrow> real dict \<Rightarrow> string \<Rightarrow> real dict \<Rightarrow> error + real dict" where
  "classWeightLoop [] catAreas cat catClassWeights = Inr catClassWeights"
| "classWeightLoop ((k, a) # rest) catAreas cat catClassWeights =
     bindE (dict_get catAreas cat) (\<lambda>ca.
     bindE (py_div a ca) (\<lambda>w.
     classWeightLoop rest catAreas cat (dict_set catClassWeights k w)))"

text \<open>The outer loop: equation 57, then the classes of the category.\<close>

fun categoryWeightLoop ::
  "string list \<Rightarrow> RothermelFuelComplex \<Rightarrow> error + RothermelFuelComplex" where
  "categoryWeightLoop [] self = Inr self"
| "categoryWeightLoop (cat # rest) self =
     bindE (dict_get (categoryAreas self) cat) (\<lambda>ca.
     bindE (py_div ca (totalArea self)) (\<lambda>cw.
     bindE (dict_get (classAreas self) cat) (\<lambda>items.
     bindE (classWeightLoop items (categoryAreas self) cat []) (\<lambda>ws.
     categoryWeightLoop rest
       (self\<lparr>categoryWeighting := dict_set (categoryWeighting self) cat cw,
             classWeighting := dict_set (classWeighting self) cat ws\<rparr>)))))"

definition calcWeightingParameters ::
  "RothermelFuelComplex \<Rightarrow> error + RothermelFuelComplex" where
  "calcWeightingParameters self =
     bindE (calcMeanSurfaceArea self) (\<lambda>s1.
     categoryWeightLoop (map fst (classAreas s1))
       (s1\<lparr>categoryWeighting := [], classWeighting := []\<rparr>))"

text \<open>
  \<open>aggregateIntoCategories\<close>. The inner loop runs over the class weights of one
  category; \<open>curFuel.calcNetFuelLoading()\<close> writes into the particle, so the
  particles are threaded through. The four sums are heatContent, netFuelLoading,
  effMineralContent and fuelMoisture of the category, each started at 0.
\<close>

fun aggClassLoop ::
  "(string \<times> real) list \<Rightarrow> string \<Rightarrow> real Fuel dict dict \<Rightarrow> real \<times> real \<times> real \<times> real \<Rightarrow>
   error + (real Fuel dict dict \<times> real \<times> real \<times> real \<times> real)" where
  "aggClassLoop [] cat fp acc = Inr (fp, acc)"
| "aggClassLoop ((className, curWgt) # rest) cat fp (h, n, e, m) =
     bindE (dict_get fp cat) (\<lambda>classes.
     bindE (dict_get classes className) (\<lambda>curFuel.
     bindE (calcNetFuelLoading curFuel) (\<lambda>curFuel'.
     bindE (attr (netFuelLoading curFuel')) (\<lambda>nfl.
     bindE (need (fuelMoisture curFuel')) (\<lambda>fm.
     aggClassLoop rest cat (dict_set fp cat (dict_set classes className curFuel'))
       (h + curWgt * heatContent curFuel', n + curWgt * nfl,
        e + curWgt * effMineralContent curFuel', m + curWgt * fm))))))"

text \<open>
  The outer loop over the keys of \<open>categoryWeighting\<close>. The four dictionaries are
  built here and stored in the attributes when the loop is over.
\<close>

fun aggCategoryLoop ::
  "string list \<Rightarrow> RothermelFuelComplex \<Rightarrow> real dict \<times> real dict \<times> real dict \<times> real dict \<Rightarrow>
   error + (RothermelFuelComplex \<times> real dict \<times> real dict \<times> real dict \<times> real dict)" where
  "aggCategoryLoop [] self acc = Inr (self, acc)"
| "aggCategoryLoop (cat # rest) self (H, N, E, M) =
     bindE (dict_get (classWeighting self) cat) (\<lambda>classWgts.
     bindE (aggClassLoop classWgts cat (fuelParameters self) (0, 0, 0, 0)) (\<lambda>(fp, h, n, e, m).
     aggCategoryLoop rest (self\<lparr>fuelParameters := fp\<rparr>)
       (dict_set H cat h, dict_set N cat n, dict_set E cat e, dict_set M cat m)))"

definition aggregateIntoCategories ::
  "RothermelFuelComplex \<Rightarrow> error + RothermelFuelComplex" where
  "aggregateIntoCategories self =
     bindE (aggCategoryLoop (map fst (categoryWeighting self)) self ([], [], [], []))
       (\<lambda>(s1, H, N, E, M).
     Inr (s1\<lparr>heatContent := PyDict H, netFuelLoading := Some (PyDict N),
             effMineralContent := PyDict E, fuelMoisture := Some (PyDict M)\<rparr>))"

text \<open>
  \<open>aggregateIntoComplex\<close>. The inner loop adds to catSigma, packingRatio and
  bulkDensity; the outer one resets catSigma for each category.
\<close>

fun complexClassLoop ::
  "(string \<times> real) list \<Rightarrow> string \<Rightarrow> real Fuel dict dict \<Rightarrow> real \<times> real \<times> real \<Rightarrow>
   error + (real \<times> real \<times> real)" where
  "complexClassLoop [] cat fp acc = Inr acc"
| "complexClassLoop ((className, curWgt) # rest) cat fp (catSigma, pr, bd) =
     bindE (particle_at fp cat className) (\<lambda>curFuel.
     bindE (need (sigma curFuel)) (\<lambda>sg.
     bindE (need (ovendryLoading curFuel)) (\<lambda>w.
     bindE (py_div (curWgt * w) (particleDensity curFuel)) (\<lambda>q.
     complexClassLoop rest cat fp (catSigma + curWgt * sg, pr + q, bd + curWgt * w)))))"

fun complexCategoryLoop ::
  "(string \<times> real) list \<Rightarrow> RothermelFuelComplex \<Rightarrow> real \<times> real \<times> real \<Rightarrow>
   error + (real \<times> real \<times> real)" where
  "complexCategoryLoop [] self acc = Inr acc"
| "complexCategoryLoop ((cat, catWeight) # rest) self (sg, pr, bd) =
     bindE (dict_get (classWeighting self) cat) (\<lambda>classWgts.
     bindE (complexClassLoop classWgts cat (fuelParameters self) (0, pr, bd))
       (\<lambda>(catSigma, pr', bd').
     complexCategoryLoop rest self (sg + catWeight * catSigma, pr', bd')))"

definition aggregateIntoComplex ::
  "RothermelFuelComplex \<Rightarrow> error + RothermelFuelComplex" where
  "aggregateIntoComplex self =
     bindE (complexCategoryLoop (categoryWeighting self) self (0, 0, 0)) (\<lambda>(sg, pr, bd).
     bindE (py_div bd (depth self)) (\<lambda>b.
     bindE (py_div pr (depth self)) (\<lambda>p.
     setSigmaE sg (self\<lparr>bulkDensity := Some b, packingRatio := Some p\<rparr>))))"

definition compute :: "RothermelFuelComplex \<Rightarrow> error + RothermelFuelComplex" where
  "compute self =
     bindE (calcWeightingParameters self) (\<lambda>s1.
     bindE (aggregateIntoCategories s1) (\<lambda>s2.
     aggregateIntoComplex s2))"

section \<open>albini.py: the fuel complex of Albini\<close>

text \<open>\<open>d[k]\<close> on an attribute that may hold \<open>None\<close>, a float or a dictionary.\<close>

definition subscript :: "pyval option \<Rightarrow> string \<Rightarrow> error + real" where
  "subscript v k =
     (case v of Some (PyDict d) \<Rightarrow> dict_get d k | _ \<Rightarrow> Inl TypeError)"

text \<open>The first loop of \<open>calcWPrime\<close>, over the dead particles.\<close>

fun wPrimeNumLoop :: "real Fuel list \<Rightarrow> real \<Rightarrow> error + real" where
  "wPrimeNumLoop [] num = Inr num"
| "wPrimeNumLoop (deadFuel # rest) num =
     bindE (need (sigma deadFuel)) (\<lambda>sg.
     bindE (py_div (-138) sg) (\<lambda>q.
     bindE (need (ovendryLoading deadFuel)) (\<lambda>w.
     wPrimeNumLoop rest (num + w * exp q))))"

text \<open>The second loop, over the live particles.\<close>

fun wPrimeDenLoop :: "real Fuel list \<Rightarrow> real \<Rightarrow> error + real" where
  "wPrimeDenLoop [] den = Inr den"
| "wPrimeDenLoop (liveFuel # rest) den =
     bindE (need (sigma liveFuel)) (\<lambda>sg.
     bindE (py_div (-500) sg) (\<lambda>q.
     bindE (need (ovendryLoading liveFuel)) (\<lambda>w.
     wPrimeDenLoop rest (den + w * exp q))))"

definition calcWPrime :: "RothermelFuelComplex \<Rightarrow> error + RothermelFuelComplex" where
  "calcWPrime self =
     bindE (dict_get (fuelParameters self) DEAD) (\<lambda>deads.
     bindE (wPrimeNumLoop (map snd deads) 0) (\<lambda>num.
     bindE (dict_get (fuelParameters self) LIVE) (\<lambda>lives.
     bindE (wPrimeDenLoop (map snd lives) 0) (\<lambda>den.
     bindE (py_div num den) (\<lambda>w.
     Inr (self\<lparr>wPrime := Some w\<rparr>))))))"

fun mPrimeLoop :: "real Fuel list \<Rightarrow> real \<times> real \<Rightarrow> error + (real \<times> real)" where
  "mPrimeLoop [] acc = Inr acc"
| "mPrimeLoop (deadFuel # rest) (num, den) =
     bindE (need (sigma deadFuel)) (\<lambda>sg.
     bindE (py_div (-138) sg) (\<lambda>q.
     bindE (need (ovendryLoading deadFuel)) (\<lambda>w.
     bindE (need (fuelMoisture deadFuel)) (\<lambda>fm.
     mPrimeLoop rest (num + w * exp q * fm, den + w * exp q)))))"

definition calcMPrime :: "RothermelFuelComplex \<Rightarrow> error + RothermelFuelComplex" where
  "calcMPrime self =
     bindE (dict_get (fuelParameters self) DEAD) (\<lambda>deads.
     bindE (mPrimeLoop (map snd deads) (0, 0)) (\<lambda>(num, den).
     bindE (py_div num den) (\<lambda>m.
     Inr (self\<lparr>mPrime := Some m\<rparr>))))"

text \<open>
  \<open>AlbiniFuelComplex.calcLivingExtMoisture\<close>. The guard is
  \<open>(not (LIVE in fuelParameters)) or (fuelParameters[LIVE][ONEHR].ovendryLoading == 0)\<close>:
  the second operand is evaluated only when the first is false, and it subscripts
  both dictionaries. \<open>None == 0\<close> is false.
\<close>

definition Albini_calcLivingExtMoisture ::
  "RothermelFuelComplex \<Rightarrow> error + RothermelFuelComplex" where
  "Albini_calcLivingExtMoisture self =
     (if \<not> dict_has (fuelParameters self) LIVE then Inr self
      else
        bindE (particle_at (fuelParameters self) LIVE ONEHR) (\<lambda>live1.
        if ovendryLoading live1 = Some 0 then Inr self
        else
          bindE (calcWPrime self) (\<lambda>s1.
          bindE (calcMPrime s1) (\<lambda>s2.
          bindE (attr (wPrime s2)) (\<lambda>w.
          bindE (attr (mPrime s2)) (\<lambda>m.
          bindE (subscript (extMoisture s2) DEAD) (\<lambda>deadExt.
          bindE (py_div m deadExt) (\<lambda>q.
          setExtMoisture LIVE (2.9 * w * (1 - q) - 0.226) s2))))))))"

text \<open>The method \<open>calcLivingExtMoisture\<close> of the object's class.\<close>

definition calcLivingExtMoisture ::
  "RothermelFuelComplex \<Rightarrow> error + RothermelFuelComplex" where
  "calcLivingExtMoisture self =
     (if pyclass self = AlbiniFuelComplex_cls then Albini_calcLivingExtMoisture self
      else Rothermel_calcLivingExtMoisture self)"

section \<open>model.py: the basic spread model\<close>

datatype modelclass = RothermelModel_cls | WeightedRothermelModel_cls | WeightedAlbiniModel_cls

text \<open>
  The attributes of \<open>class RothermelModel\<close>. \<open>'f\<close> is the type of the fuel and
  \<open>'d\<close> the type of the two damping coefficients: a number in the basic model, a
  dictionary by category in the weighted ones. Attributes that \<open>__init__\<close> does not
  assign are \<open>None\<close> until a method assigns them.
\<close>

record ('f, 'd) RothermelModel =
  modelclass :: modelclass
  fuel :: 'f
  windSpeed :: real
  midflameWind :: "real option"
  windMultiplier :: real
  slopeRad :: real
  slopeMultiplier :: real
  dampMoisture :: "'d option"
  dampMineral :: "'d option"
  potReactionVelocity :: "real option"
  reactionIntensity :: "real option"
  propFluxRatio :: "real option"
  noWindRos :: "real option"
  ros :: "real option"

definition RothermelModel_init :: "modelclass \<Rightarrow> 'f \<Rightarrow> ('f, 'd) RothermelModel" where
  "RothermelModel_init c f =
     \<lparr>modelclass = c, fuel = f, windSpeed = 0, midflameWind = None, windMultiplier = 0,
      slopeRad = 0, slopeMultiplier = 0, dampMoisture = None, dampMineral = None,
      potReactionVelocity = None, reactionIntensity = None, propFluxRatio = None,
      noWindRos = None, ros = None\<rparr>"

text \<open>Rothermel's equation 29, the polynomial in the moisture ratio.\<close>

definition moisturePolynomial :: "real \<Rightarrow> real" where
  "moisturePolynomial ratio =
     1 - 2.59 * ratio + 5.11 * (ratio * ratio) - 3.52 * (ratio * ratio * ratio)"

definition calcMoistureDamping ::
  "(real Fuel, real) RothermelModel \<Rightarrow> error + (real Fuel, real) RothermelModel" where
  "calcMoistureDamping self =
     bindE (need (fuelMoisture (fuel self))) (\<lambda>fm.
     bindE (need (extMoisture (fuel self))) (\<lambda>em.
     bindE (py_div fm em) (\<lambda>ratio.
     Inr (self\<lparr>dampMoisture := Some (moisturePolynomial ratio)\<rparr>))))"

definition calcMineralDamping ::
  "(real Fuel, real) RothermelModel \<Rightarrow> error + (real Fuel, real) RothermelModel" where
  "calcMineralDamping self =
     bindE (py_pow (effMineralContent (fuel self)) (-0.19)) (\<lambda>p.
     Inr (self\<lparr>dampMineral := Some (p * 0.174)\<rparr>))"

definition calcPotReactionVelocity ::
  "(('v, 'z) Fuel_scheme, 'd) RothermelModel \<Rightarrow> error + (('v, 'z) Fuel_scheme, 'd) RothermelModel" where
  "calcPotReactionVelocity self =
     bindE (attr (packingRatio (fuel self))) (\<lambda>pr.
     bindE (attr (optimalPacking (fuel self))) (\<lambda>op.
     bindE (py_div pr op) (\<lambda>ratio.
     bindE (attr (maxPotentialVelocity (fuel self))) (\<lambda>mpv.
     bindE (attr (exponentA (fuel self))) (\<lambda>a.
     bindE (py_pow ratio a) (\<lambda>p.
     Inr (self\<lparr>potReactionVelocity := Some (mpv * p * exp (a * (1 - ratio)))\<rparr>)))))))"

definition calcReactionIntensity ::
  "(real Fuel, real) RothermelModel \<Rightarrow> error + (real Fuel, real) RothermelModel" where
  "calcReactionIntensity self =
     bindE (attr (netFuelLoading (fuel self))) (\<lambda>n.
     bindE (attr (potReactionVelocity self)) (\<lambda>prv.
     bindE (attr (dampMineral self)) (\<lambda>dmin.
     bindE (attr (dampMoisture self)) (\<lambda>dmoist.
     Inr (self\<lparr>reactionIntensity :=
                Some (n * heatContent (fuel self) * prv * dmin * dmoist)\<rparr>)))))"

definition calcPropFluxRatio ::
  "(('v, 'z) Fuel_scheme, 'd) RothermelModel \<Rightarrow> error + (('v, 'z) Fuel_scheme, 'd) RothermelModel" where
  "calcPropFluxRatio self =
     bindE (need (sigma (fuel self))) (\<lambda>sg.
     bindE (py_sqrt sg) (\<lambda>r.
     bindE (attr (packingRatio (fuel self))) (\<lambda>pr.
     bindE (py_div (exp ((0.792 + 0.681 * r) * (pr + 0.1))) (192 + 0.259 * sg)) (\<lambda>x.
     Inr (self\<lparr>propFluxRatio := Some x\<rparr>)))))"

definition calcNoWindRos ::
  "(real Fuel, real) RothermelModel \<Rightarrow> error + (real Fuel, real) RothermelModel" where
  "calcNoWindRos self =
     bindE (attr (reactionIntensity self)) (\<lambda>ri.
     bindE (attr (propFluxRatio self)) (\<lambda>pfr.
     bindE (need (bulkDensity (fuel self))) (\<lambda>bd.
     bindE (attr (heatingEfficiency (fuel self))) (\<lambda>he.
     bindE (attr (heatOfIgnition (fuel self))) (\<lambda>hoi.
     bindE (py_div (ri * pfr) (bd * he * hoi)) (\<lambda>r.
     Inr (self\<lparr>noWindRos := Some r\<rparr>)))))))"

definition setWind ::
  "real \<Rightarrow> (('v, 'z) Fuel_scheme, 'd) RothermelModel \<Rightarrow>
   error + (('v, 'z) Fuel_scheme, 'd) RothermelModel" where
  "setWind mfw self =
     bindE (need (sigma (fuel self))) (\<lambda>sg.
     bindE (py_pow sg 0.55) (\<lambda>p55.
     bindE (py_pow sg 0.54) (\<lambda>p54.
     bindE (py_pow mfw (0.02526 * p54)) (\<lambda>pw.
     bindE (attr (packingRatio (fuel self))) (\<lambda>pr.
     bindE (attr (optimalPacking (fuel self))) (\<lambda>op.
     bindE (py_div pr op) (\<lambda>ratio.
     bindE (py_pow ratio (- (0.715 * exp (- 0.000359 * sg)))) (\<lambda>pe.
     Inr (self\<lparr>midflameWind := Some mfw,
               windMultiplier := 7.47 * exp (- 0.133 * p55) * pw * pe\<rparr>)))))))))"

definition setSlope ::
  "real \<Rightarrow> (('v, 'z) Fuel_scheme, 'd) RothermelModel \<Rightarrow>
   error + (('v, 'z) Fuel_scheme, 'd) RothermelModel" where
  "setSlope sl self =
     bindE (attr (packingRatio (fuel self))) (\<lambda>pr.
     bindE (py_pow pr (-0.3)) (\<lambda>p.
     Inr (self\<lparr>slopeRad := sl, slopeMultiplier := 5.275 * p * (tan sl * tan sl)\<rparr>)))"

definition calcRos ::
  "('f, 'd) RothermelModel \<Rightarrow> error + ('f, 'd) RothermelModel" where
  "calcRos self =
     bindE (attr (noWindRos self)) (\<lambda>r.
     Inr (self\<lparr>ros := Some (r * (1 + windMultiplier self + slopeMultiplier self))\<rparr>))"

text \<open>\<open>RothermelModel.evaluate\<close> on a single fuel.\<close>

definition evaluate ::
  "(real Fuel, real) RothermelModel \<Rightarrow> error + (real Fuel, real) RothermelModel" where
  "evaluate self =
     bindE (calcNetFuelLoading (fuel self)) (\<lambda>f.
     bindE (calcPropFluxRatio (self\<lparr>fuel := f\<rparr>)) (\<lambda>s1.
     bindE (calcMineralDamping s1) (\<lambda>s2.
     bindE (calcMoistureDamping s2) (\<lambda>s3.
     bindE (calcPotReactionVelocity s3) (\<lambda>s4.
     bindE (calcReactionIntensity s4) (\<lambda>s5.
     bindE (calcNoWindRos s5) (\<lambda>s6.
     calcRos s6)))))))"

section \<open>rothweights.py and albini.py: the weighted spread models\<close>

type_synonym WeightedModel = "(RothermelFuelComplex, real dict) RothermelModel"

text \<open>\<open>v.items()\<close> and \<open>v.keys()\<close> need a dictionary.\<close>

definition items_of :: "pyval option \<Rightarrow> error + real dict" where
  "items_of v = (case v of Some (PyDict d) \<Rightarrow> Inr d | _ \<Rightarrow> Inl AttributeError)"

fun mineralDampingLoop :: "(string \<times> real) list \<Rightarrow> real dict \<Rightarrow> error + real dict" where
  "mineralDampingLoop [] dm = Inr dm"
| "mineralDampingLoop ((k, v) # rest) dm =
     bindE (py_pow v (-0.19)) (\<lambda>p.
     mineralDampingLoop rest (dict_set dm k (p * 0.174)))"

definition Weighted_calcMineralDamping :: "WeightedModel \<Rightarrow> error + WeightedModel" where
  "Weighted_calcMineralDamping self =
     bindE (as_dict (effMineralContent (fuel self))) (\<lambda>items.
     bindE (mineralDampingLoop items []) (\<lambda>dm.
     Inr (self\<lparr>dampMineral := Some dm\<rparr>)))"

fun moistureDampingLoop ::
  "(string \<times> real) list \<Rightarrow> pyval option \<Rightarrow> real dict \<Rightarrow> error + real dict" where
  "moistureDampingLoop [] ext dm = Inr dm"
| "moistureDampingLoop ((category, fm) # rest) ext dm =
     bindE (subscript ext category) (\<lambda>em.
     bindE (py_div fm em) (\<lambda>ratio.
     moistureDampingLoop rest ext (dict_set dm category (moisturePolynomial ratio))))"

definition Weighted_calcMoistureDamping :: "WeightedModel \<Rightarrow> error + WeightedModel" where
  "Weighted_calcMoistureDamping self =
     bindE (items_of (fuelMoisture (fuel self))) (\<lambda>items.
     bindE (moistureDampingLoop items (extMoisture (fuel self)) []) (\<lambda>dm.
     Inr (self\<lparr>dampMoisture := Some dm\<rparr>)))"

text \<open>
  \<open>WeightedRothermelModel.calcReactionIntensity\<close>, equation 58: the loop over the
  keys of \<open>dampMoisture\<close>.
\<close>

fun Rothermel_intensityLoop :: "string list \<Rightarrow> WeightedModel \<Rightarrow> real \<Rightarrow> error + real" where
  "Rothermel_intensityLoop [] self acc = Inr acc"
| "Rothermel_intensityLoop (category # rest) self acc =
     bindE (dict_get (categoryWeighting (fuel self)) category) (\<lambda>cw.
     bindE (subscript (netFuelLoading (fuel self)) category) (\<lambda>n.
     bindE (subscript (Some (heatContent (fuel self))) category) (\<lambda>h.
     bindE (bindE (attr (dampMoisture self)) (\<lambda>d. dict_get d category)) (\<lambda>dmoist.
     bindE (bindE (attr (dampMineral self)) (\<lambda>d. dict_get d category)) (\<lambda>dmin.
     Rothermel_intensityLoop rest self (acc + cw * n * h * dmoist * dmin))))))"

definition Rothermel_calcReactionIntensity :: "WeightedModel \<Rightarrow> error + WeightedModel" where
  "Rothermel_calcReactionIntensity self =
     bindE (attr (dampMoisture self)) (\<lambda>d.
     bindE (Rothermel_intensityLoop (map fst d) self 0) (\<lambda>total.
     bindE (attr (potReactionVelocity self)) (\<lambda>prv.
     Inr (self\<lparr>reactionIntensity := Some (total * prv)\<rparr>))))"

text \<open>\<open>WeightedAlbiniModel.calcReactionIntensity\<close>: the same loop without the category weight.\<close>

fun Albini_intensityLoop :: "string list \<Rightarrow> WeightedModel \<Rightarrow> real \<Rightarrow> error + real" where
  "Albini_intensityLoop [] self acc = Inr acc"
| "Albini_intensityLoop (category # rest) self acc =
     bindE (subscript (netFuelLoading (fuel self)) category) (\<lambda>n.
     bindE (subscript (Some (heatContent (fuel self))) category) (\<lambda>h.
     bindE (bindE (attr (dampMoisture self)) (\<lambda>d. dict_get d category)) (\<lambda>dmoist.
     bindE (bindE (attr (dampMineral self)) (\<lambda>d. dict_get d category)) (\<lambda>dmin.
     Albini_intensityLoop rest self (acc + n * h * dmoist * dmin)))))"

definition Albini_calcReactionIntensity :: "WeightedModel \<Rightarrow> error + WeightedModel" where
  "Albini_calcReactionIntensity self =
     bindE (attr (dampMoisture self)) (\<lambda>d.
     bindE (Albini_intensityLoop (map fst d) self 0) (\<lambda>total.
     bindE (attr (potReactionVelocity self)) (\<lambda>prv.
     Inr (self\<lparr>reactionIntensity := Some (total * prv)\<rparr>))))"

text \<open>
  \<open>WeightedRothermelModel.calcNoWindRos\<close>, which \<open>WeightedAlbiniModel\<close>
  inherits: the heat sinks by category and size class.
\<close>

fun sinkClassLoop ::
  "(string \<times> real Fuel) list \<Rightarrow> string \<Rightarrow> real dict dict \<Rightarrow> real \<Rightarrow> error + real" where
  "sinkClassLoop [] category cw innerSum = Inr innerSum"
| "sinkClassLoop ((sizeClass, f) # rest) category cw innerSum =
     bindE (bindE (dict_get cw category) (\<lambda>d. dict_get d sizeClass)) (\<lambda>w.
     bindE (attr (heatOfIgnition f)) (\<lambda>hoi.
     bindE (attr (heatingEfficiency f)) (\<lambda>he.
     sinkClassLoop rest category cw (innerSum + w * hoi * he))))"

fun sinkCategoryLoop ::
  "(string \<times> real Fuel dict) list \<Rightarrow> RothermelFuelComplex \<Rightarrow> real \<Rightarrow> error + real" where
  "sinkCategoryLoop [] c sinks = Inr sinks"
| "sinkCategoryLoop ((category, classes) # rest) c sinks =
     bindE (sinkClassLoop classes category (classWeighting c) 0) (\<lambda>innerSum.
     bindE (dict_get (categoryWeighting c) category) (\<lambda>w.
     sinkCategoryLoop rest c (sinks + w * innerSum)))"

definition Weighted_calcNoWindRos :: "WeightedModel \<Rightarrow> error + WeightedModel" where
  "Weighted_calcNoWindRos self =
     bindE (attr (propFluxRatio self)) (\<lambda>pfr.
     bindE (attr (reactionIntensity self)) (\<lambda>ri.
     bindE (sinkCategoryLoop (fuelParameters (fuel self)) (fuel self) 0) (\<lambda>sinks.
     bindE (py_div (pfr * ri) sinks) (\<lambda>r.
     Inr (self\<lparr>noWindRos := Some r\<rparr>)))))"

text \<open>
  \<open>RothermelModel.evaluate\<close> as the weighted classes inherit it: the fuel's
  \<open>calcNetFuelLoading\<close> is the \<open>pass\<close> of the complex, and the three overridden
  methods are those of the model's class. The basic class on a complex would hand a
  dictionary to \<open>math.pow\<close>.
\<close>

definition Weighted_calcReactionIntensity :: "WeightedModel \<Rightarrow> error + WeightedModel" where
  "Weighted_calcReactionIntensity self =
     (case modelclass self of
        RothermelModel_cls \<Rightarrow> Inl TypeError
      | WeightedRothermelModel_cls \<Rightarrow> Rothermel_calcReactionIntensity self
      | WeightedAlbiniModel_cls \<Rightarrow> Albini_calcReactionIntensity self)"

definition Weighted_evaluate :: "WeightedModel \<Rightarrow> error + WeightedModel" where
  "Weighted_evaluate self =
     bindE (calcPropFluxRatio self) (\<lambda>s1.
     if modelclass s1 = RothermelModel_cls then Inl TypeError
     else
       bindE (Weighted_calcMineralDamping s1) (\<lambda>s2.
       bindE (Weighted_calcMoistureDamping s2) (\<lambda>s3.
       bindE (calcPotReactionVelocity s3) (\<lambda>s4.
       bindE (Weighted_calcReactionIntensity s4) (\<lambda>s5.
       bindE (Weighted_calcNoWindRos s5) (\<lambda>s6.
       calcRos s6))))))"

section \<open>fbp.py: the facade\<close>

text \<open>
  The attributes of \<open>RothermelFBP\<close>. \<open>rateOfSpread\<close>, \<open>heatPerArea\<close>, \<open>slope\<close> and
  \<open>midflameWindSpeed\<close> are declared by the parent class \<open>FireBehaviorPrediction\<close>
  of another package; they are taken as they are found. \<open>fuelComplex\<close> and
  \<open>fireModel.fuel\<close> are one object (\<open>_setFuelModel\<close>), held here once, inside the
  model; \<open>fireModel = None\<close> is the facade with no fuel model yet.
\<close>

record RothermelFBP =
  rateOfSpread :: "real option"
  heatPerArea :: "real option"
  slope :: real
  midflameWindSpeed :: real
  fireModel :: "WeightedModel option"

definition FBP_evaluate :: "RothermelFBP \<Rightarrow> error + RothermelFBP" where
  "FBP_evaluate self =
     (if rateOfSpread self = None \<and> heatPerArea self = None then
        bindE (attr (fireModel self)) (\<lambda>fm.
        bindE (compute (fuel fm)) (\<lambda>c1.
        bindE (if dict_has (fuelParameters c1) LIVE then calcLivingExtMoisture c1 else Inr c1)
          (\<lambda>c2.
        bindE (setSlope (slope self * (pi / 180)) (fm\<lparr>fuel := c2\<rparr>)) (\<lambda>m1.
        bindE (setWind (midflameWindSpeed self * (5280 / 60)) m1) (\<lambda>m2.
        bindE (Weighted_evaluate m2) (\<lambda>m3.
        Inr (self\<lparr>fireModel := Some m3, heatPerArea := reactionIntensity m3,
                  rateOfSpread := ros m3\<rparr>)))))))
      else Inr self)"

text \<open>
  The two accessors return the value and the facade as they leave it. A comparison
  of \<open>None\<close> with a float is a \<open>TypeError\<close>.
\<close>

definition getRateOfSpread :: "RothermelFBP \<Rightarrow> error + (real option \<times> RothermelFBP)" where
  "getRateOfSpread self =
     (if rateOfSpread self \<noteq> None then Inr (rateOfSpread self, self)
      else
        bindE (FBP_evaluate self) (\<lambda>s1.
        bindE (need (rateOfSpread s1)) (\<lambda>r.
        let s2 = (if r < 0 then s1\<lparr>rateOfSpread := Some 0\<rparr> else s1)
        in Inr (rateOfSpread s2, s2))))"

definition getHeatPerArea :: "RothermelFBP \<Rightarrow> error + (real option \<times> RothermelFBP)" where
  "getHeatPerArea self =
     (if rateOfSpread self \<noteq> None then Inr (heatPerArea self, self)
      else
        bindE (FBP_evaluate self) (\<lambda>s1.
        bindE (need (heatPerArea s1)) (\<lambda>h.
        let s2 = (if h < 0 then s1\<lparr>heatPerArea := Some 0\<rparr> else s1)
        in Inr (heatPerArea s2, s2))))"

section \<open>nffl.py: the factory of fuel model 1\<close>

text \<open>
  \<open>nffl1()\<close>, with the module attributes \<open>FuelComponent\<close> and \<open>FuelComplex\<close>
  (the classes the factory instantiates) as parameters.
\<close>

definition nffl1 :: "pyclass \<Rightarrow> pyclass \<Rightarrow> error + RothermelFuelComplex" where
  "nffl1 FuelComponent FuelComplex =
     bindE (Fuel_init FuelComponent (Some 3500) (Some 0.034)) (\<lambda>p.
     bindE (setExtMoisture DEAD 0.12
              (setFuelParams DEAD ONEHR p (RothermelFuelComplex_init FuelComplex))) (\<lambda>c.
     Inr (setDepth 1 c)))"

section \<open>Notions used to state the properties\<close>

text \<open>
  The geometry attributes that a successful \<open>setSigma sg\<close> writes, with \<open>a\<close> the
  exponent A of the fuel's class.
\<close>

definition geometry :: "real \<Rightarrow> real \<Rightarrow> ('v, 'z) Fuel_scheme \<Rightarrow> ('v, 'z) Fuel_scheme" where
  "geometry sg a self =
     self\<lparr>sigma := Some sg,
          optimalPacking := Some (3.348 * sg powr (- 0.8189)),
          maxPotentialVelocity := Some (sg powr 1.5 / (495 + 0.0594 * sg powr 1.5)),
          exponentA := Some a,
          heatingEfficiency := Some (exp (- 138 / sg))\<rparr>"



text \<open>
  What the loops compute, as list functions. \<open>mapE\<close> maps a function that may
  raise over a list and stops at the first raise, as a loop does.
\<close>

fun mapE :: "('a \<Rightarrow> error + 'b) \<Rightarrow> 'a list \<Rightarrow> error + 'b list" where
  "mapE f [] = Inr []"
| "mapE f (x # xs) = bindE (f x) (\<lambda>y. bindE (mapE f xs) (\<lambda>ys. Inr (y # ys)))"








text \<open>
  One step of the inner loop of \<open>aggregateIntoCategories\<close>: the particle after
  \<open>calcNetFuelLoading\<close> and its weighted heat content, net loading, effective
  mineral content and moisture. Then a whole category, and every category; the
  weights are paired with the particles in dictionary order.
\<close>

definition contribE ::
  "(string \<times> real Fuel) \<times> real \<Rightarrow> error + ((string \<times> real Fuel) \<times> real \<times> real \<times> real \<times> real)" where
  "contribE = (\<lambda>((k, f), w).
     bindE (calcNetFuelLoading f) (\<lambda>f'.
     bindE (attr (netFuelLoading f')) (\<lambda>nfl.
     bindE (need (fuelMoisture f')) (\<lambda>fm.
     Inr ((k, f'), w * heatContent f', w * nfl, w * effMineralContent f', w * fm)))))"

definition sumH :: "('a \<times> real \<times> real \<times> real \<times> real) list \<Rightarrow> real" where
  "sumH R = sum_list (map (\<lambda>(_, h, n, e, m). h) R)"

definition sumN :: "('a \<times> real \<times> real \<times> real \<times> real) list \<Rightarrow> real" where
  "sumN R = sum_list (map (\<lambda>(_, h, n, e, m). n) R)"

definition sumE :: "('a \<times> real \<times> real \<times> real \<times> real) list \<Rightarrow> real" where
  "sumE R = sum_list (map (\<lambda>(_, h, n, e, m). e) R)"

definition sumM :: "('a \<times> real \<times> real \<times> real \<times> real) list \<Rightarrow> real" where
  "sumM R = sum_list (map (\<lambda>(_, h, n, e, m). m) R)"

definition catAggE ::
  "(string \<times> real Fuel dict) \<times> real dict \<Rightarrow>
   error + (string \<times> real Fuel dict \<times> real \<times> real \<times> real \<times> real)" where
  "catAggE = (\<lambda>((cat, classes), ws).
     bindE (mapE contribE (zip classes (map snd ws))) (\<lambda>R.
     Inr (cat, map fst R, sumH R, sumN R, sumE R, sumM R)))"

definition aggE ::
  "real Fuel dict dict \<Rightarrow> real dict dict \<Rightarrow>
   error + (string \<times> real Fuel dict \<times> real \<times> real \<times> real \<times> real) list" where
  "aggE fp CW = mapE catAggE (zip fp (map snd CW))"

text \<open>The particle map and the four dictionaries that the aggregation leaves.\<close>

definition newParams ::
  "(string \<times> real Fuel dict \<times> real \<times> real \<times> real \<times> real) list \<Rightarrow> real Fuel dict dict" where
  "newParams Q = map (\<lambda>(cat, cls, h, n, e, m). (cat, cls)) Q"

definition dictH :: "(string \<times> real Fuel dict \<times> real \<times> real \<times> real \<times> real) list \<Rightarrow> real dict" where
  "dictH Q = map (\<lambda>(cat, cls, h, n, e, m). (cat, h)) Q"

definition dictN :: "(string \<times> real Fuel dict \<times> real \<times> real \<times> real \<times> real) list \<Rightarrow> real dict" where
  "dictN Q = map (\<lambda>(cat, cls, h, n, e, m). (cat, n)) Q"

definition dictE :: "(string \<times> real Fuel dict \<times> real \<times> real \<times> real \<times> real) list \<Rightarrow> real dict" where
  "dictE Q = map (\<lambda>(cat, cls, h, n, e, m). (cat, e)) Q"

definition dictM :: "(string \<times> real Fuel dict \<times> real \<times> real \<times> real \<times> real) list \<Rightarrow> real dict" where
  "dictM Q = map (\<lambda>(cat, cls, h, n, e, m). (cat, m)) Q"

text \<open>
  The weights are aligned with the particle map: the same categories in the same
  order and, in each, the same size classes in the same order.
\<close>

definition aligned :: "'a dict dict \<Rightarrow> 'b dict dict \<Rightarrow> bool" where
  "aligned fp CW =
     list_all2 (\<lambda>x y. fst y = fst x \<and> map fst (snd y) = map fst (snd x)) fp CW"

text \<open>
  Two particle maps with the same categories and size classes, in the same order,
  whose particles are related by \<open>P\<close> slot by slot.
\<close>

definition paramsRel ::
  "(real Fuel \<Rightarrow> real Fuel \<Rightarrow> bool) \<Rightarrow> real Fuel dict dict \<Rightarrow> real Fuel dict dict \<Rightarrow> bool" where
  "paramsRel P fp fp' =
     list_all2 (\<lambda>x y. fst y = fst x
        \<and> list_all2 (\<lambda>a b. fst b = fst a \<and> P (snd a) (snd b)) (snd x) (snd y)) fp fp'"

text \<open>Two particles with the same sigma, loading and particle density.\<close>

definition sameGeometry :: "real Fuel \<Rightarrow> real Fuel \<Rightarrow> bool" where
  "sameGeometry f f' =
     (sigma f' = sigma f \<and> ovendryLoading f' = ovendryLoading f
      \<and> particleDensity f' = particleDensity f)"

text \<open>
  The moisture of a category as the weighted sum of equation 66, over the particles
  of the category paired with their class weights.
\<close>

definition moistureOf :: "real Fuel \<Rightarrow> real" where
  "moistureOf f = (case fuelMoisture f of Some m \<Rightarrow> m | None \<Rightarrow> 0)"

definition weightedMoisture :: "real Fuel dict \<Rightarrow> real dict \<Rightarrow> real" where
  "weightedMoisture classes ws =
     sum_list (map (\<lambda>(a, b). snd b * moistureOf (snd a)) (zip classes ws))"

definition categoryMoistures :: "real Fuel dict dict \<Rightarrow> real dict dict \<Rightarrow> real dict" where
  "categoryMoistures fp CW =
     map (\<lambda>(x, y). (fst x, weightedMoisture (snd x) (snd y))) (zip fp CW)"

text \<open>The value that a dictionary holds at a key it has.\<close>

definition valueAt :: "real dict \<Rightarrow> string \<Rightarrow> real" where
  "valueAt d k = (case map_of d k of Some v \<Rightarrow> v | None \<Rightarrow> 0)"

text \<open>
  The closed forms of Rothermel's equations 42, 38 and 30 on arguments for which the
  code does not raise.
\<close>

definition propFlux :: "real \<Rightarrow> real \<Rightarrow> real" where
  "propFlux sg pr = exp ((0.792 + 0.681 * sqrt sg) * (pr + 0.1)) / (192 + 0.259 * sg)"

definition reactionVelocity :: "real \<Rightarrow> real \<Rightarrow> real \<Rightarrow> real" where
  "reactionVelocity mpv ratio a = mpv * ratio powr a * exp (a * (1 - ratio))"

definition mineralDamping :: "real \<Rightarrow> real" where
  "mineralDamping se = se powr (- 0.19) * 0.174"

section \<open>Fuel beds used as concrete inputs\<close>

text \<open>
  The particle that \<open>RothermelFuel(sg, w)\<close> and \<open>AlbiniFuel(sg, w)\<close> return when
  the constructor succeeds.
\<close>

definition rothermelParticle :: "real \<Rightarrow> real \<Rightarrow> real Fuel" where
  "rothermelParticle sg w =
     geometry sg (1 / (4.77 * sg powr 0.1 - 7.27)) (Fuel_blank RothermelFuel_cls (Some w))"

definition albiniParticle :: "real \<Rightarrow> real \<Rightarrow> real Fuel" where
  "albiniParticle sg w =
     geometry sg (133 * sg powr (- 0.7913)) (Fuel_blank AlbiniFuel_cls (Some w))"

text \<open>A dead-only bed of Albini's classes: one dead 1-hr particle, no live category.\<close>

definition deadOnly :: RothermelFuelComplex where
  "deadOnly =
     setFuelParams DEAD ONEHR (Fuel_blank AlbiniFuel_cls (Some 0.034))
       (RothermelFuelComplex_init AlbiniFuelComplex_cls)"

text \<open>An Albini bed with a live category that holds a 10-hr particle only.\<close>

definition liveTenHrOnly :: RothermelFuelComplex where
  "liveTenHrOnly =
     setFuelParams LIVE TENHR (Fuel_blank AlbiniFuel_cls (Some 0.023))
       (setFuelParams DEAD ONEHR (Fuel_blank AlbiniFuel_cls (Some 0.034))
         (RothermelFuelComplex_init AlbiniFuelComplex_cls))"

text \<open>
  A bed with a dead and a live 1-hr class (the fine fuels of NFFL model 2), with
  their moistures set, and the same bed once its surface areas are computed.
\<close>

definition grassShrub :: RothermelFuelComplex where
  "grassShrub =
     setDepth 1
       (setFuelParams LIVE ONEHR (setFuelMoisture 0.9 None (rothermelParticle 1500 0.023))
         (setFuelParams DEAD ONEHR (setFuelMoisture 0.06 None (rothermelParticle 3000 0.092))
           (RothermelFuelComplex_init RothermelFuelComplex_cls)))"




text \<open>
  NFFL model 1 as the factory returns it for Rothermel's classes, and with the
  moisture \<open>fm\<close> of its dead 1-hr particle set.
\<close>

definition nffl1Bed :: RothermelFuelComplex where
  "nffl1Bed =
     (setFuelParams DEAD ONEHR (rothermelParticle 3500 0.034)
        (RothermelFuelComplex_init RothermelFuelComplex_cls))
     \<lparr>extMoisture := Some (PyDict [(DEAD, 0.12)]), depth := 1\<rparr>"

definition nffl1Moist :: "real \<Rightarrow> RothermelFuelComplex" where
  "nffl1Moist fm =
     nffl1Bed\<lparr>fuelParameters :=
       [(DEAD, [(ONEHR, setFuelMoisture fm None (rothermelParticle 3500 0.034))])]\<rparr>"

text \<open>
  The same fuel for the basic model: the particle with bulk density loading / depth,
  and both moistures.
\<close>

definition nffl1Basic :: "real Fuel" where
  "nffl1Basic =
     setFuelMoisture 0.06 (Some 0.12)
       ((rothermelParticle 3500 0.034)
        \<lparr>bulkDensity := Some 0.034, particleDensity := 32, packingRatio := Some (0.034 / 32)\<rparr>)"

text \<open>
  The facade on NFFL model 1 with no wind, no slope and nothing evaluated yet; the
  dead 1-hr moisture is \<open>fm\<close>.
\<close>

definition nffl1Facade :: "real \<Rightarrow> RothermelFBP" where
  "nffl1Facade fm =
     \<lparr>rateOfSpread = None, heatPerArea = None, slope = 0, midflameWindSpeed = 0,
      fireModel = Some (RothermelModel_init WeightedRothermelModel_cls (nffl1Moist fm))\<rparr>"

text \<open>
  The same bed after \<open>compute\<close>, and the constants of its evaluation: the packing
  ratio over the optimal one, and the reaction intensity without the moisture damping.
\<close>

definition nffl1Computed :: "real \<Rightarrow> RothermelFuelComplex" where
  "nffl1Computed fm =
     geometry 3500 (1 / (4.77 * 3500 powr 0.1 - 7.27))
       ((nffl1Moist fm)\<lparr>classAreas := [(DEAD, [(ONEHR, 3500 * 0.034 / 32)])],
          categoryAreas := [(DEAD, 3500 * 0.034 / 32)],
          totalArea := 3500 * 0.034 / 32,
          categoryWeighting := [(DEAD, 1)], classWeighting := [(DEAD, [(ONEHR, 1)])],
          fuelParameters := [(DEAD, [(ONEHR, (setFuelMoisture fm None (rothermelParticle 3500 0.034))
              \<lparr>netFuelLoading := Some (0.034 / (1 + 0.0555))\<rparr>)])],
          heatContent := PyDict [(DEAD, 8000)],
          netFuelLoading := Some (PyDict [(DEAD, 0.034 / (1 + 0.0555))]),
          effMineralContent := PyDict [(DEAD, 0.01)],
          fuelMoisture := Some (PyDict [(DEAD, fm)]),
          bulkDensity := Some (0.034 / 1),
          packingRatio := Some (0.034 / 32 / 1)\<rparr>)"

definition nffl1Ratio :: real where
  "nffl1Ratio = (0.034 / 32 / 1) / (3.348 * 3500 powr (- 0.8189))"

definition nffl1Velocity :: real where
  "nffl1Velocity =
     reactionVelocity (3500 powr 1.5 / (495 + 0.0594 * 3500 powr 1.5)) nffl1Ratio
       (1 / (4.77 * 3500 powr 0.1 - 7.27))"


text \<open>
  A state of the weighted model on the bed above in which the dampings by category
  and the potential reaction velocity are set, as they are when
  \<open>calcReactionIntensity\<close> is called.
\<close>

definition grassShrubDamped :: WeightedModel where
  "grassShrubDamped =
     (RothermelModel_init WeightedRothermelModel_cls
        (grassShrub\<lparr>netFuelLoading := Some (PyDict [(DEAD, 0.08), (LIVE, 0.02)]),
                    heatContent := PyDict [(DEAD, 8000), (LIVE, 8000)],
                    categoryWeighting := [(DEAD, 0.75), (LIVE, 0.25)]\<rparr>))
     \<lparr>dampMoisture := Some [(DEAD, 0.5), (LIVE, 0.25)],
      dampMineral := Some [(DEAD, 0.5), (LIVE, 0.5)],
      potReactionVelocity := Some 10\<rparr>"
section \<open>Properties\<close>

lemma bindE_Inr [simp]: "bindE (Inr v) f = f v"
  by (simp add: bindE_def)

lemma bindE_Inl [simp]: "bindE (Inl e) f = Inl e"
  by (simp add: bindE_def)

subsection \<open>Albini's live extinction moisture\<close>

text \<open>
  C5. On an Albini fuel complex whose particle map has no live category,
  \<open>calcLivingExtMoisture\<close> returns without raising and returns the object as it
  was: the extinction-moisture dictionary, and every other attribute, is unchanged.
\<close>

theorem albini_no_live_is_noop:
  assumes "pyclass c = AlbiniFuelComplex_cls" and "\<not> dict_has (fuelParameters c) LIVE"
  shows "calcLivingExtMoisture c = Inr c"
  using assms by (simp add: calcLivingExtMoisture_def Albini_calcLivingExtMoisture_def)

theorem albini_no_live_is_noop_witness:
  "pyclass deadOnly = AlbiniFuelComplex_cls \<and> \<not> dict_has (fuelParameters deadOnly) LIVE
   \<and> calcLivingExtMoisture deadOnly = Inr deadOnly"
proof -
  have a: "pyclass deadOnly = AlbiniFuelComplex_cls"
    by (simp add: deadOnly_def setFuelParams_def RothermelFuelComplex_init_def)
  have b: "\<not> dict_has (fuelParameters deadOnly) LIVE"
    by (simp add: deadOnly_def setFuelParams_def RothermelFuelComplex_init_def
        dict_has_def dict_set_def)
  from a b albini_no_live_is_noop [OF a b] show ?thesis by simp
qed

text \<open>
  C10. On an Albini fuel complex whose particle map has the live category but no
  \<open>'1 hr'\<close> size class in it, \<open>calcLivingExtMoisture\<close> raises \<open>KeyError\<close>: the guard
  subscripts the live 1-hr particle before it can decide to skip.
\<close>

theorem albini_live_without_onehr_raises:
  assumes "pyclass c = AlbiniFuelComplex_cls"
    and "dict_get (fuelParameters c) LIVE = Inr classes"
    and "\<not> dict_has classes ONEHR"
  shows "calcLivingExtMoisture c = Inl KeyError"
  using assms
  by (auto simp: calcLivingExtMoisture_def Albini_calcLivingExtMoisture_def particle_at_def
      dict_has_def dict_get_def split: option.splits)

theorem albini_live_without_onehr_raises_witness:
  "pyclass liveTenHrOnly = AlbiniFuelComplex_cls
   \<and> dict_get (fuelParameters liveTenHrOnly) LIVE
       = Inr [(TENHR, Fuel_blank AlbiniFuel_cls (Some 0.023))]
   \<and> \<not> dict_has [(TENHR, Fuel_blank AlbiniFuel_cls (Some 0.023))] ONEHR
   \<and> calcLivingExtMoisture liveTenHrOnly = Inl KeyError"
proof -
  have a: "pyclass liveTenHrOnly = AlbiniFuelComplex_cls"
    by (simp add: liveTenHrOnly_def setFuelParams_def RothermelFuelComplex_init_def)
  have b: "dict_get (fuelParameters liveTenHrOnly) LIVE
       = Inr [(TENHR, Fuel_blank AlbiniFuel_cls (Some 0.023))]"
    by (simp add: liveTenHrOnly_def setFuelParams_def RothermelFuelComplex_init_def
        dict_get_def dict_set_def)
  have c: "\<not> dict_has [(TENHR, Fuel_blank AlbiniFuel_cls (Some 0.023))] ONEHR"
    by (simp add: dict_has_def)
  from a b c albini_live_without_onehr_raises [OF a b c] show ?thesis by simp
qed

subsection \<open>The geometry of a fuel\<close>











subsection \<open>Surface areas and weights\<close>

































subsection \<open>The properties on concrete fuel beds\<close>



lemma area_rothermelParticle [simp]:
  "calcMeanSurfaceAreaOneClass (rothermelParticle sg w) = Inr (sg * w / 32)"
  "calcMeanSurfaceAreaOneClass (setFuelMoisture m e (rothermelParticle sg w)) = Inr (sg * w / 32)"
  by (simp_all add: calcMeanSurfaceAreaOneClass_def setFuelMoisture_def rothermelParticle_def
      geometry_def Fuel_blank_def need_def py_div_def)

lemma area_albiniParticle [simp]:
  "calcMeanSurfaceAreaOneClass (albiniParticle sg w) = Inr (sg * w / 32)"
  "calcMeanSurfaceAreaOneClass (setFuelMoisture m e (albiniParticle sg w)) = Inr (sg * w / 32)"
  by (simp_all add: calcMeanSurfaceAreaOneClass_def setFuelMoisture_def albiniParticle_def
      geometry_def Fuel_blank_def need_def py_div_def)






lemma albiniParticle_fields [simp]:
  "sigma (albiniParticle sg w) = Some sg" "ovendryLoading (albiniParticle sg w) = Some w"
  by (simp_all add: albiniParticle_def geometry_def Fuel_blank_def)

lemma rothermelParticle_fields [simp]:
  "sigma (rothermelParticle sg w) = Some sg" "ovendryLoading (rothermelParticle sg w) = Some w"
  by (simp_all add: rothermelParticle_def geometry_def Fuel_blank_def)


end
